theory Spec2Isabelle
  imports Main
begin

section \<open>The editor host and the libraries the extension calls\<close>

text \<open>
  The extension is glue between the editor's API, Node's \<^verbatim>\<open>path\<close> and \<^verbatim>\<open>fs\<close> modules,
  the EJS templating library and the MJML compiler. None of these is code of the
  repository: they are fields of the record \<open>host\<close>, read by the embedded functions.
  So are \<^verbatim>\<open>mjmlToHtml\<close> and \<^verbatim>\<open>fixImages\<close>, two functions of the helper module that
  \<^verbatim>\<open>Preview\<close> imports and that are not among the sources: nothing is assumed of them,
  a call may return or throw.
  A JavaScript string is a \<open>string\<close> whose characters are its code units (below 256, so
  the line terminators of a regular expression's \<^verbatim>\<open>.\<close> are LF and CR).
  A thrown exception (or a rejected promise of an \<^verbatim>\<open>async\<close> function) is \<open>Inl\<close> of a
  \<open>js_error\<close>, the value thrown: an error object with its name and message, or one of
  the values \<^verbatim>\<open>null\<close> and \<^verbatim>\<open>undefined\<close>, which a \<^verbatim>\<open>throw\<close> statement of an imported module
  or of a template can throw as well. Elsewhere \<^verbatim>\<open>undefined\<close> is \<open>None\<close>.
\<close>

datatype js_error = JsError string string | ThrownNull | ThrownUndefined

definition TypeError :: "string \<Rightarrow> js_error" where
  "TypeError m = JsError ''TypeError'' m"

text \<open>\<^verbatim>\<open>err.toString()\<close>: \<^verbatim>\<open>Error.prototype.toString\<close> for an error object; on \<^verbatim>\<open>null\<close> and
  \<^verbatim>\<open>undefined\<close> the property access itself throws a TypeError.\<close>

fun err_toString :: "js_error \<Rightarrow> js_error + string" where
  "err_toString (JsError name msg) =
     Inr (if name = [] then msg else if msg = [] then name else name @ '': '' @ msg)"
| "err_toString ThrownNull = Inl (TypeError ''Cannot read property toString of null'')"
| "err_toString ThrownUndefined = Inl (TypeError ''Cannot read property toString of undefined'')"

record document =
  fileName :: string
  languageId :: string
  uri_scheme :: string
  uri_fsPath :: string
  getText :: string

record configuration =
  autoPreview :: bool
  updateWhenTyping :: bool
  autoClosePreview :: bool
  preserveFocus :: bool
  previewBackgroundColor :: string
  minifyHtmlOutput :: bool
  beautifyHtmlOutput :: bool

record mjml_options =
  opt_level :: string
  opt_minify :: bool
  opt_beautify :: bool
  opt_filePath :: string
  opt_cwd :: string

text \<open>The object the MJML compiler returns; \<open>out_html = None\<close> is a missing field.\<close>

record mjml_output =
  out_html :: "string option"

text \<open>
  What \<^verbatim>\<open>JSON.parse\<close> yields for a \<^verbatim>\<open>preview.json\<close>, as far as \<^verbatim>\<open>compileHtml\<close> reads it:
  the \<^verbatim>\<open>data\<close> member (absent: \<open>None\<close>) and the \<^verbatim>\<open>helpers\<close> member (falsy: \<open>None\<close>).
  The data handed to the compiled template carries the imported helper module.
\<close>

record preview_json =
  cfg_data :: "string option"
  cfg_helpers :: "string option"

record template_data =
  td_payload :: string
  td_helpers :: "string option"

record host =
  activeTextEditor :: "document option"
  textDocuments :: "document list"
  rootPath :: "string option"
  getConfiguration :: configuration
  existsSync :: "string \<Rightarrow> bool"
  readFileSync :: "string \<Rightarrow> js_error + string"
  JSON_parse :: "string \<Rightarrow> js_error + preview_json option"
  import_module :: "string \<Rightarrow> js_error + string"
  ejs_compile :: "string \<Rightarrow> string \<Rightarrow> js_error + (template_data option \<Rightarrow> js_error + string)"
  mjml_lib :: "string \<Rightarrow> mjml_options \<Rightarrow> js_error + mjml_output"
  mjmlToHtml :: "string \<Rightarrow> bool \<Rightarrow> bool \<Rightarrow> string \<Rightarrow> string \<Rightarrow> js_error + mjml_output"
  fixImages :: "string \<Rightarrow> string \<Rightarrow> js_error + string"
  path_dirname :: "string \<Rightarrow> string"
  path_basename :: "string \<Rightarrow> string"
  path_join :: "string \<Rightarrow> string \<Rightarrow> string"
  path_resolve :: "string \<Rightarrow> string \<Rightarrow> string"
  path_parse_dir :: "string \<Rightarrow> string"
  fileUrl :: "string \<Rightarrow> string"
  showInputBox :: "string \<Rightarrow> string option"
  writeFile :: "string \<Rightarrow> string \<Rightarrow> js_error option"

text \<open>\<^verbatim>\<open>try { body } catch (e) { handler }\<close>.\<close>

definition try_catch :: "js_error + 'a \<Rightarrow> (js_error \<Rightarrow> js_error + 'a) \<Rightarrow> js_error + 'a" where
  "try_catch body handler = (case body of Inl e \<Rightarrow> handler e | Inr v \<Rightarrow> Inr v)"

text \<open>Truthiness of a string that may be \<^verbatim>\<open>undefined\<close>: defined and not empty.\<close>

definition truthy :: "string option \<Rightarrow> bool" where
  "truthy v = (case v of None \<Rightarrow> False | Some s \<Rightarrow> s \<noteq> [])"

text \<open>\<^verbatim>\<open>s.lastIndexOf(c)\<close> (\<open>-1\<close> when absent) and \<^verbatim>\<open>s.substring(0, n)\<close> (a negative
  \<open>n\<close> counts as 0, one beyond the length as the length).\<close>

definition lastIndexOf :: "string \<Rightarrow> char \<Rightarrow> int" where
  "lastIndexOf s c =
     (if c \<in> set s then int (length s) - 1 - int (length (takeWhile (\<lambda>x. x \<noteq> c) (rev s)))
      else - 1)"

definition substring0 :: "string \<Rightarrow> int \<Rightarrow> string" where
  "substring0 s n = take (nat n) s"

section \<open>Helper (helper.ts)\<close>

definition isMJMLFile :: "document \<Rightarrow> bool" where
  "isMJMLFile d \<longleftrightarrow> languageId d = ''mjml'' \<and> uri_scheme d \<noteq> ''mjml-preview''"

text \<open>\<^verbatim>\<open>vscode.window.activeTextEditor.document\<close>: a TypeError when no editor is active.\<close>

definition activeDocument :: "host \<Rightarrow> js_error + document" where
  "activeDocument h =
     (case activeTextEditor h of
        None \<Rightarrow> Inl (TypeError ''Cannot read property document of undefined'')
      | Some d \<Rightarrow> Inr d)"

definition resolveFileOrText :: "host \<Rightarrow> string \<Rightarrow> js_error + string option" where
  "resolveFileOrText h name =
     (case find (\<lambda>e. fileName e = name) (textDocuments h) of
        Some d \<Rightarrow> Inr (Some (getText d))
      | None \<Rightarrow>
          if path_dirname h name \<noteq> [] \<and> existsSync h name then
            (case readFileSync h name of Inl e \<Rightarrow> Inl e | Inr s \<Rightarrow> Inr (Some s))
          else Inr None)"

definition fileFolder_of :: "string \<Rightarrow> string" where
  "fileFolder_of currentFileName =
     substring0 currentFileName (lastIndexOf currentFileName (CHR ''/''))"

definition dataFileName_of :: "string \<Rightarrow> string" where
  "dataFileName_of currentFileName = fileFolder_of currentFileName @ ''/preview.json''"

text \<open>The branch of \<^verbatim>\<open>compileHtml\<close> taken when a data source was found.\<close>

definition render_template :: "host \<Rightarrow> string \<Rightarrow> string \<Rightarrow> string \<Rightarrow> js_error + string" where
  "render_template h currentFileName dataSource html_text =
     (case JSON_parse h dataSource of
        Inl e \<Rightarrow> Inl e
      | Inr None \<Rightarrow> Inl (TypeError ''Cannot read property data of null'')
      | Inr (Some config) \<Rightarrow>
          (let data0 = map_option (\<lambda>p. \<lparr>td_payload = p, td_helpers = None\<rparr>) (cfg_data config);
               data1 =
                 (case cfg_helpers config of
                    None \<Rightarrow> Inr data0
                  | Some hn \<Rightarrow>
                      (case import_module h (fileFolder_of currentFileName @ ''/'' @ hn) of
                         Inl e \<Rightarrow> Inl e
                       | Inr helpers \<Rightarrow>
                           (case data0 of
                              None \<Rightarrow> Inl (TypeError ''Cannot set property helpers of undefined'')
                            | Some d \<Rightarrow> Inr (Some (d\<lparr>td_helpers := Some helpers\<rparr>)))))
           in case data1 of
                Inl e \<Rightarrow> Inl e
              | Inr data \<Rightarrow>
                  (case ejs_compile h html_text currentFileName of
                     Inl e \<Rightarrow> Inl e
                   | Inr compiled \<Rightarrow> compiled data)))"

definition compileHtml :: "host \<Rightarrow> string \<Rightarrow> js_error + string" where
  "compileHtml h html_text =
     (case activeDocument h of
        Inl e \<Rightarrow> Inl e
      | Inr d \<Rightarrow>
          (let currentFileName = fileName d in
           case resolveFileOrText h (dataFileName_of currentFileName) of
             Inl e \<Rightarrow> Inl e
           | Inr dataSource \<Rightarrow>
               (case dataSource of
                  None \<Rightarrow> Inr html_text
                | Some src \<Rightarrow>
                    if src \<noteq> [] then render_template h currentFileName src html_text
                    else Inr html_text)))"

definition getCWD :: "host \<Rightarrow> js_error + string" where
  "getCWD h =
     (let fromDocument =
            (case activeDocument h of
               Inl e \<Rightarrow> Inl e
             | Inr d \<Rightarrow> Inr (path_parse_dir h (uri_fsPath d)))
      in case rootPath h of
           None \<Rightarrow> fromDocument
         | Some root \<Rightarrow> if root \<noteq> [] then Inr root else fromDocument)"

text \<open>The \<^verbatim>\<open>try\<close> block of \<^verbatim>\<open>Helper.mjml2html\<close>: the options object is built (file path
  first, then the working directory), the compiler is called, and the \<^verbatim>\<open>html\<close> member
  is returned when it is truthy; otherwise control falls off the end of the function.\<close>

definition mjml2html_try :: "host \<Rightarrow> string \<Rightarrow> bool \<Rightarrow> bool \<Rightarrow> js_error + string option" where
  "mjml2html_try h mjml minify beautify =
     (case activeDocument h of
        Inl e \<Rightarrow> Inl e
      | Inr d \<Rightarrow>
          (case getCWD h of
             Inl e \<Rightarrow> Inl e
           | Inr cwd \<Rightarrow>
               (case mjml_lib h mjml
                       \<lparr>opt_level = ''skip'', opt_minify = minify, opt_beautify = beautify,
                        opt_filePath = uri_fsPath d, opt_cwd = cwd\<rparr> of
                  Inl e \<Rightarrow> Inl e
                | Inr res \<Rightarrow> if truthy (out_html res) then Inr (out_html res) else Inr None)))"

definition mjml2html :: "host \<Rightarrow> string \<Rightarrow> bool \<Rightarrow> bool \<Rightarrow> js_error + string option" where
  "mjml2html h mjml minify beautify =
     try_catch (mjml2html_try h mjml minify beautify) (\<lambda>e. Inr None)"

subsection \<open>The regular expression of \<^verbatim>\<open>fixLinks\<close>\<close>

text \<open>
  \<^verbatim>\<open>/((?:src|href|url)(?:=|\()(?:['"]|))((?!http|\\|"|#).+?)(['"]|\))/gmi\<close>.
  The matcher below follows the backtracking search of the regular expression: the
  alternatives of each group are tried in the order written, and the first complete
  match wins. Under the \<^verbatim>\<open>i\<close> flag two code units match when their upper-case
  forms agree; only ASCII letters occur in the pattern, and no code unit outside ASCII
  is canonicalised to an ASCII letter.
\<close>

definition squote :: char where "squote = CHR 0x27"
definition dquote :: char where "dquote = CHR 0x22"
definition backslash :: char where "backslash = CHR 0x5C"

definition is_line_terminator :: "char \<Rightarrow> bool" where
  "is_line_terminator c \<longleftrightarrow> c = CHR 0x0A \<or> c = CHR 0x0D"

definition canonicalize :: "char \<Rightarrow> char" where
  "canonicalize c =
     (let n = (of_char c :: nat) in if 97 \<le> n \<and> n \<le> 122 then char_of (n - 32) else c)"

text \<open>A literal word of the pattern at the head of the text: the matched text and the rest.\<close>

fun match_word :: "string \<Rightarrow> string \<Rightarrow> (string \<times> string) option" where
  "match_word [] t = Some ([], t)"
| "match_word (k # ks) [] = None"
| "match_word (k # ks) (c # cs) =
     (if canonicalize c = canonicalize k then
        (case match_word ks cs of None \<Rightarrow> None | Some (m, r) \<Rightarrow> Some (c # m, r))
      else None)"

text \<open>Alternatives, tried from left to right.\<close>

fun first_match :: "('a \<Rightarrow> 'b option) \<Rightarrow> 'a list \<Rightarrow> 'b option" where
  "first_match f [] = None"
| "first_match f (x # xs) = (case f x of Some r \<Rightarrow> Some r | None \<Rightarrow> first_match f xs)"

text \<open>The negative lookahead \<^verbatim>\<open>(?!http|\\|"|#)\<close> fails the match when this holds.\<close>

definition lookahead_hit :: "string \<Rightarrow> bool" where
  "lookahead_hit t =
     (case match_word ''http'' t of
        Some m \<Rightarrow> True
      | None \<Rightarrow> (case t of [] \<Rightarrow> False | c # _ \<Rightarrow> c = backslash \<or> c = dquote \<or> c = CHR ''#''))"

definition is_closer :: "char \<Rightarrow> bool" where
  "is_closer c \<longleftrightarrow> c = squote \<or> c = dquote \<or> c = CHR '')''"

text \<open>The lazy \<^verbatim>\<open>.+?\<close> followed by group 3: after the characters taken so far, stop at
  the first closing character, give up at a line terminator or at the end of the text.\<close>

fun lazy_value :: "string \<Rightarrow> string \<Rightarrow> (string \<times> string \<times> string) option" where
  "lazy_value taken [] = None"
| "lazy_value taken (c # cs) =
     (if is_closer c then Some (taken, [c], cs)
      else if is_line_terminator c then None
      else lazy_value (taken @ [c]) cs)"

text \<open>Groups 2 and 3 at the head of the text.\<close>

definition match_value :: "string \<Rightarrow> (string \<times> string \<times> string) option" where
  "match_value t =
     (if lookahead_hit t then None
      else case t of
             [] \<Rightarrow> None
           | c # cs \<Rightarrow> if is_line_terminator c then None else lazy_value [c] cs)"

text \<open>\<^verbatim>\<open>(?:['"]|)\<close> and what follows it; \<open>p\<close> is the part of group 1 matched so far.\<close>

definition match_quote :: "string \<Rightarrow> string \<Rightarrow> (string \<times> string \<times> string \<times> string) option" where
  "match_quote p t =
     (case (case t of
              [] \<Rightarrow> None
            | q # t' \<Rightarrow>
                if q = squote \<or> q = dquote then
                  (case match_value t' of
                     None \<Rightarrow> None
                   | Some (p2, p3, rest) \<Rightarrow> Some (p @ [q], p2, p3, rest))
                else None) of
        Some m \<Rightarrow> Some m
      | None \<Rightarrow>
          (case match_value t of
             None \<Rightarrow> None
           | Some (p2, p3, rest) \<Rightarrow> Some (p, p2, p3, rest)))"

text \<open>\<^verbatim>\<open>(?:=|\()\<close> and what follows it.\<close>

definition match_sep :: "string \<Rightarrow> string \<Rightarrow> (string \<times> string \<times> string \<times> string) option" where
  "match_sep p t =
     first_match
       (\<lambda>sep. case t of
                 [] \<Rightarrow> None
               | c # t' \<Rightarrow> if c = sep then match_quote (p @ [c]) t' else None)
       [CHR ''='', CHR ''('']"

text \<open>The whole pattern at the head of the text: groups 1, 2, 3 and the text after the match.\<close>

definition match_link :: "string \<Rightarrow> (string \<times> string \<times> string \<times> string) option" where
  "match_link t =
     first_match
       (\<lambda>kw. case match_word kw t of None \<Rightarrow> None | Some (m, r) \<Rightarrow> match_sep m r)
       [''src'', ''href'', ''url'']"

text \<open>
  \<^verbatim>\<open>text.replace(regexp, callback)\<close> with the \<^verbatim>\<open>g\<close> flag walks the text by index: a match
  at the current index is recorded and the index moves to its end; otherwise the
  character is kept and the index moves on by one. \<open>link_segments n t\<close> is the walk when
  \<open>n\<close> more characters of \<open>t\<close> belong to the match found last.
\<close>

datatype segment = Lit char | Link string string string

fun link_segments :: "nat \<Rightarrow> string \<Rightarrow> segment list" where
  "link_segments n [] = []"
| "link_segments (Suc n) (c # cs) = link_segments n cs"
| "link_segments 0 (c # cs) =
     (case match_link (c # cs) of
        None \<Rightarrow> Lit c # link_segments 0 cs
      | Some (p1, p2, p3, rest) \<Rightarrow>
          Link p1 p2 p3 # link_segments (length p1 + length p2 + length p3 - 1) cs)"

text \<open>The replacement callback is called once per match, in order; when it throws,
  \<^verbatim>\<open>replace\<close> throws.\<close>

fun replace_segments ::
  "(string \<Rightarrow> string \<Rightarrow> string \<Rightarrow> js_error + string) \<Rightarrow> segment list \<Rightarrow> js_error + string" where
  "replace_segments f [] = Inr []"
| "replace_segments f (Lit c # ss) =
     (case replace_segments f ss of Inl e \<Rightarrow> Inl e | Inr r \<Rightarrow> Inr (c # r))"
| "replace_segments f (Link p1 p2 p3 # ss) =
     (case f p1 p2 p3 of
        Inl e \<Rightarrow> Inl e
      | Inr x \<Rightarrow> (case replace_segments f ss of Inl e \<Rightarrow> Inl e | Inr r \<Rightarrow> Inr (x @ r)))"

definition fixLinks_callback :: "host \<Rightarrow> string \<Rightarrow> string \<Rightarrow> string \<Rightarrow> js_error + string" where
  "fixLinks_callback h p1 p2 p3 =
     (case activeDocument h of
        Inl e \<Rightarrow> Inl e
      | Inr d \<Rightarrow> Inr (p1 @ fileUrl h (path_join h (path_dirname h (uri_fsPath d)) p2) @ p3))"

definition fixLinks :: "host \<Rightarrow> string \<Rightarrow> js_error + string" where
  "fixLinks h t = replace_segments (fixLinks_callback h) (link_segments 0 t)"

subsection \<open>\<^verbatim>\<open>Helper.renderMJML\<close>\<close>

text \<open>What a call of the \<^verbatim>\<open>async\<close> function \<^verbatim>\<open>renderMJML\<close> ends in: a warning or an error
  message shown to the user, the value of the callback, or a rejected promise.\<close>

datatype 'a outcome = Warned string | ErrorShown string | Returned 'a | Rejected js_error

definition renderMJML ::
  "host \<Rightarrow> (string \<Rightarrow> js_error + 'a) \<Rightarrow> bool option \<Rightarrow> bool option \<Rightarrow> bool option \<Rightarrow> 'a outcome" where
  "renderMJML h cb fixLinks_arg minify_arg beautify_arg =
     (case activeDocument h of
        Inl e \<Rightarrow> Rejected e
      | Inr d \<Rightarrow>
          if \<not> isMJMLFile d then Warned ''This is not a MJML document!''
          else
            (case compileHtml h (getText d) of
               Inl e \<Rightarrow> Rejected e
             | Inr templated \<Rightarrow>
                 (case mjml2html h templated
                         (case minify_arg of Some m \<Rightarrow> m | None \<Rightarrow> minifyHtmlOutput (getConfiguration h))
                         (case beautify_arg of Some b \<Rightarrow> b | None \<Rightarrow> beautifyHtmlOutput (getConfiguration h)) of
                    Inl e \<Rightarrow> Rejected e
                  | Inr None \<Rightarrow>
                      ErrorShown (''MJMLError: Failed to parse file '' @ path_basename h (uri_fsPath d))
                  | Inr (Some content) \<Rightarrow>
                      if content = [] then
                        ErrorShown (''MJMLError: Failed to parse file '' @ path_basename h (uri_fsPath d))
                      else
                        (case (if fixLinks_arg = Some True then fixLinks h content else Inr content) of
                           Inl e \<Rightarrow> Rejected e
                         | Inr content' \<Rightarrow>
                             (case cb content' of Inl e \<Rightarrow> Rejected e | Inr v \<Rightarrow> Returned v)))))"

section \<open>ExportHTML (exportProvider.ts)\<close>

text \<open>\<^verbatim>\<open>name.replace(/\.[^\.]+$/, "")\<close>: the first dot that is followed, up to the end of the
  string, by one or more characters none of which is a dot, is removed with what
  follows it.\<close>

fun strip_extension :: "string \<Rightarrow> string" where
  "strip_extension [] = []"
| "strip_extension (c # cs) =
     (if c = CHR ''.'' \<and> cs \<noteq> [] \<and> CHR ''.'' \<notin> set cs then [] else c # strip_extension cs)"

text \<open>The file written (or not) and the message shown by the callback of \<^verbatim>\<open>fs.writeFile\<close>.\<close>

datatype export_result =
    Saved (saved_file: string) (saved_content: string) (saved_message: string)
  | SaveFailed string string string

definition export_callback :: "host \<Rightarrow> string \<Rightarrow> js_error + export_result" where
  "export_callback h content =
     (case activeDocument h of
        Inl e \<Rightarrow> Inl e
      | Inr d \<Rightarrow>
          (let defaultFileName = strip_extension (path_basename h (uri_fsPath d));
               reply = showInputBox h (''File name ('' @ defaultFileName @ ''.html)'');
               name =
                 (case reply of
                    None \<Rightarrow> defaultFileName
                  | Some r \<Rightarrow> if r \<noteq> [] then strip_extension r else defaultFileName);
               file = path_resolve h (uri_fsPath d) (''../'' @ name @ ''.html'')
           in case writeFile h file content of
                Some err \<Rightarrow> Inr (SaveFailed file content ''Something went wrong.'')
              | None \<Rightarrow> Inr (Saved file content (''File saved as '' @ name @ ''.html''))))"

definition ExportHTML_export :: "host \<Rightarrow> export_result outcome" where
  "ExportHTML_export h = renderMJML h (export_callback h) None None None"

section \<open>PreviewContentProvider and IDMap (previewProvider.ts)\<close>

definition no_mjml_message :: string where
  "no_mjml_message = ''Active editor doesn'' @ [squote] @ ''t show a MJML document.''"

definition error_page :: "string \<Rightarrow> string" where
  "error_page msg = ''<body>'' @ msg @ ''</body>''"

definition provider_renderMJML :: "host \<Rightarrow> document \<Rightarrow> js_error + string" where
  "provider_renderMJML h d =
     (case compileHtml h (getText d) of
        Inl err \<Rightarrow>
          (case err_toString err of Inl e \<Rightarrow> Inl e | Inr msg \<Rightarrow> Inr (error_page msg))
      | Inr templated \<Rightarrow>
          (case mjml2html h templated False False of
             Inl e \<Rightarrow> Inl e
           | Inr None \<Rightarrow> Inr (error_page no_mjml_message)
           | Inr (Some html) \<Rightarrow>
               if html \<noteq> [] then fixLinks h html
               else Inr (error_page no_mjml_message)))"

definition provideTextDocumentContent :: "host \<Rightarrow> document \<Rightarrow> js_error + string" where
  "provideTextDocumentContent h d =
     (if languageId d \<noteq> ''mjml'' then Inr (error_page no_mjml_message)
      else provider_renderMJML h d)"

subsection \<open>IDMap\<close>

text \<open>
  The keys of the \<^verbatim>\<open>Map\<close> are two-element arrays \<^verbatim>\<open>[documentUri, previewUri]\<close>, a string
  and a \<^verbatim>\<open>Uri\<close> object. Every call of \<^verbatim>\<open>add\<close> builds a new array, and a \<^verbatim>\<open>Map\<close> compares
  object keys by identity, so \<^verbatim>\<open>set\<close> never replaces an entry: the map is the list of its
  entries in insertion order, which is the order \<^verbatim>\<open>keys()\<close> iterates in.
\<close>

datatype key_elem = KeyString string | KeyUri string

type_synonym idmap = "(key_elem list \<times> string) list"

text \<open>\<^verbatim>\<open>Array.prototype.indexOf\<close>: the first index holding the value, or \<open>-1\<close>.\<close>

fun indexOf :: "'a list \<Rightarrow> 'a \<Rightarrow> int" where
  "indexOf [] v = - 1"
| "indexOf (x # xs) v = (if x = v then 0 else (let i = indexOf xs v in if i < 0 then - 1 else i + 1))"

text \<open>\<^verbatim>\<open>UUIDv4\<close>: every \<^verbatim>\<open>x\<close> and \<^verbatim>\<open>y\<close> of the template is replaced by a hexadecimal digit
  drawn from \<^verbatim>\<open>Math.random() * 16 | 0\<close>; \<open>rnd k\<close> is the value of that expression at the
  \<open>k\<close>-th replacement. For \<^verbatim>\<open>y\<close> the digit is \<^verbatim>\<open>r & 0x3 | 0x8\<close>, that is \<open>8 + r mod 4\<close>.\<close>

definition hex_digit :: "nat \<Rightarrow> char" where
  "hex_digit v = ''0123456789abcdef'' ! (v mod 16)"

fun uuid_fill :: "(nat \<Rightarrow> nat) \<Rightarrow> nat \<Rightarrow> string \<Rightarrow> string" where
  "uuid_fill rnd k [] = []"
| "uuid_fill rnd k (c # cs) =
     (if c = CHR ''x'' \<or> c = CHR ''y'' then
        (let r = rnd k mod 16;
             v = (if c = CHR ''x'' then r else 8 + r mod 4)
         in hex_digit v # uuid_fill rnd (Suc k) cs)
      else c # uuid_fill rnd k cs)"

definition UUIDv4 :: "(nat \<Rightarrow> nat) \<Rightarrow> string" where
  "UUIDv4 rnd = uuid_fill rnd 0 ''xxxxxxxx-xxxx-4xxx-yxxx-xxxxxxxxxxxx''"

fun getByUri :: "idmap \<Rightarrow> string \<Rightarrow> string option" where
  "getByUri [] uri = None"
| "getByUri ((key, v) # rest) uri =
     (if indexOf key (KeyString uri) > - 1 then Some v else getByUri rest uri)"

definition hasUri :: "idmap \<Rightarrow> string \<Rightarrow> bool" where
  "hasUri m uri \<longleftrightarrow> getByUri m uri \<noteq> None"

text \<open>\<^verbatim>\<open>add\<close> returns the new id together with the updated map.\<close>

definition add :: "idmap \<Rightarrow> (nat \<Rightarrow> nat) \<Rightarrow> string \<Rightarrow> string \<Rightarrow> string \<times> idmap" where
  "add m rnd documentUri previewUri =
     (let uuid = UUIDv4 rnd in (uuid, m @ [([KeyString documentUri, KeyUri previewUri], uuid)]))"

text \<open>The map after a sequence of calls of \<^verbatim>\<open>add\<close> on the empty map of a new \<^verbatim>\<open>IDMap\<close>.\<close>

fun add_all :: "idmap \<Rightarrow> ((nat \<Rightarrow> nat) \<times> string \<times> string) list \<Rightarrow> idmap" where
  "add_all m [] = m"
| "add_all m ((rnd, d, p) # calls) = add_all (snd (add m rnd d p)) calls"

section \<open>Preview (the webview panel controller)\<close>

text \<open>
  The fields of the class, together with the part of the editor window the class acts
  on: the live webview panels it has created (a disposed panel leaves the list), the
  counter that names the next panel, and the messages and editors it has asked the
  window to show. The field \<^verbatim>\<open>webview\<close> refers to a panel by its name.
\<close>

record panel =
  pid :: nat
  title :: string
  panel_html :: string

datatype effect = ShowErrorMessage string | ShowTextDocument string

record preview =
  openedDocuments :: "string list"
  previewOpen :: bool
  webview :: "nat option"
  panels :: "panel list"
  next_pid :: nat
  effects :: "effect list"

definition new_Preview :: preview where
  "new_Preview =
     \<lparr>openedDocuments = [], previewOpen = False, webview = None, panels = [], next_pid = 0,
      effects = []\<rparr>"

definition addDocument :: "string list \<Rightarrow> string \<Rightarrow> string list" where
  "addDocument docs name = (if indexOf docs name = - 1 then docs @ [name] else docs)"

definition removeDocument :: "string list \<Rightarrow> string \<Rightarrow> string list" where
  "removeDocument docs name = filter (\<lambda>file. file \<noteq> name) docs"

text \<open>Disposing a panel removes it from the window and fires the \<^verbatim>\<open>onDidDispose\<close> listener
  that \<^verbatim>\<open>displayWebView\<close> registered when it created the panel.\<close>

definition dispose_panel :: "nat \<Rightarrow> preview \<Rightarrow> preview" where
  "dispose_panel p st =
     (if p \<in> set (map pid (panels st)) then
        st\<lparr>panels := filter (\<lambda>q. pid q \<noteq> p) (panels st), webview := None, previewOpen := False\<rparr>
      else st)"

definition dispose :: "preview \<Rightarrow> preview" where
  "dispose st = (case webview st of None \<Rightarrow> st | Some p \<Rightarrow> dispose_panel p st)"

subsection \<open>\<^verbatim>\<open>setBackgroundColor\<close>\<close>

text \<open>
  \<^verbatim>\<open>/<.*head.*>/i.exec(html)\<close>. A greedy \<^verbatim>\<open>.*\<close> first takes the next character (any but a
  line terminator) and only when the rest of the pattern then fails tries the rest of
  the pattern where it stands. \<open>star_greedy k t\<close> is the length matched by \<^verbatim>\<open>.*\<close> followed
  by the pattern \<open>k\<close>.
\<close>

fun star_greedy :: "(string \<Rightarrow> nat option) \<Rightarrow> string \<Rightarrow> nat option" where
  "star_greedy k [] = k []"
| "star_greedy k (c # cs) =
     (if is_line_terminator c then k (c # cs)
      else case star_greedy k cs of Some n \<Rightarrow> Some (Suc n) | None \<Rightarrow> k (c # cs))"

definition match_gt :: "string \<Rightarrow> nat option" where
  "match_gt t = (case t of [] \<Rightarrow> None | c # _ \<Rightarrow> if c = CHR ''>'' then Some 1 else None)"

definition match_head_tail :: "string \<Rightarrow> nat option" where
  "match_head_tail t =
     (case match_word ''head'' t of
        None \<Rightarrow> None
      | Some (m, r) \<Rightarrow> map_option (\<lambda>n. 4 + n) (star_greedy match_gt r))"

text \<open>The first match, from the leftmost index at which the pattern matches.\<close>

fun head_exec :: "string \<Rightarrow> string option" where
  "head_exec [] = None"
| "head_exec (c # cs) =
     (case (if c = CHR ''<'' then star_greedy match_head_tail cs else None) of
        Some n \<Rightarrow> Some (take (Suc n) (c # cs))
      | None \<Rightarrow> head_exec cs)"

text \<open>\<^verbatim>\<open>text.replace(pattern, replacement)\<close> with two strings: the first occurrence of the
  pattern is replaced, and in the replacement \<^verbatim>\<open>$$\<close> stands for a dollar sign, \<^verbatim>\<open>$&\<close>
  for the matched text, \<^verbatim>\<open>$`\<close> for the text before the match and \<^verbatim>\<open>$'\<close> for the text
  after it.\<close>

fun split_at_first :: "string \<Rightarrow> string \<Rightarrow> (string \<times> string) option" where
  "split_at_first pat [] = (if pat = [] then Some ([], []) else None)"
| "split_at_first pat (c # cs) =
     (if take (length pat) (c # cs) = pat then Some ([], drop (length pat) (c # cs))
      else case split_at_first pat cs of None \<Rightarrow> None | Some (b, a) \<Rightarrow> Some (c # b, a))"

fun get_substitution :: "string \<Rightarrow> string \<Rightarrow> string \<Rightarrow> string \<Rightarrow> string" where
  "get_substitution matched preceding following [] = []"
| "get_substitution matched preceding following [c] = [c]"
| "get_substitution matched preceding following (c # d # r) =
     (if c = CHR ''$'' \<and> d = CHR ''$'' then CHR ''$'' # get_substitution matched preceding following r
      else if c = CHR ''$'' \<and> d = CHR ''&'' then matched @ get_substitution matched preceding following r
      else if c = CHR ''$'' \<and> d = CHR 0x60 then preceding @ get_substitution matched preceding following r
      else if c = CHR ''$'' \<and> d = squote then following @ get_substitution matched preceding following r
      else c # get_substitution matched preceding following (d # r))"

definition replace_string :: "string \<Rightarrow> string \<Rightarrow> string \<Rightarrow> string" where
  "replace_string t pat replacement =
     (case split_at_first pat t of
        None \<Rightarrow> t
      | Some (b, a) \<Rightarrow> b @ get_substitution pat b a replacement @ a)"

definition style_block :: "string \<Rightarrow> string" where
  "style_block color =
     [CHR 0x0A] @ ''<style>'' @ [CHR 0x0A] @ replicate 20 (CHR '' '') @
     ''html, body { background-color: '' @ color @ ''; }'' @ [CHR 0x0A] @
     replicate 16 (CHR '' '') @ ''</style>''"

definition setBackgroundColor :: "host \<Rightarrow> string \<Rightarrow> string" where
  "setBackgroundColor h html_text =
     (if previewBackgroundColor (getConfiguration h) \<noteq> [] then
        (case head_exec html_text of
           None \<Rightarrow> html_text
         | Some tmp0 \<Rightarrow>
             if tmp0 \<noteq> [] then
               replace_string html_text tmp0
                 (tmp0 @ style_block (previewBackgroundColor (getConfiguration h)))
             else html_text)
      else html_text)"

subsection \<open>\<^verbatim>\<open>getContent\<close> and \<^verbatim>\<open>displayWebView\<close>\<close>

text \<open>
  \<^verbatim>\<open>Preview\<close> imports \<^verbatim>\<open>isMJMLFile\<close>, \<^verbatim>\<open>compileHtml\<close>, \<^verbatim>\<open>mjmlToHtml\<close> and \<^verbatim>\<open>fixImages\<close> from
  the helper module. The first two are the functions of \<^verbatim>\<open>Helper\<close> above, the other two
  are the fields of \<open>host\<close>.

  \<^verbatim>\<open>getContent\<close> returns the content, or throws, and as it calls \<^verbatim>\<open>addDocument\<close> it
  changes the controller: both results come with the controller as the call leaves it.
  Only the call of \<^verbatim>\<open>compileHtml\<close> is inside the \<^verbatim>\<open>try\<close> block, and the \<^verbatim>\<open>catch\<close> block calls
  \<^verbatim>\<open>err.toString()\<close>.
\<close>

definition getContent :: "host \<Rightarrow> preview \<Rightarrow> document \<Rightarrow> js_error \<times> preview + string \<times> preview" where
  "getContent h st d =
     (case compileHtml h (getText d) of
        Inl err \<Rightarrow>
          (case err_toString err of
             Inl e \<Rightarrow> Inl (e, st)
           | Inr msg \<Rightarrow> Inr (error_page msg, st))
      | Inr templated \<Rightarrow>
          (case mjmlToHtml h templated False False (uri_fsPath d) ''skip'' of
             Inl e \<Rightarrow> Inl (e, st)
           | Inr res \<Rightarrow>
               (case out_html res of
                  None \<Rightarrow> Inr (error_page no_mjml_message, st)
                | Some html \<Rightarrow>
                    if html \<noteq> [] then
                      (let st' = st\<lparr>openedDocuments := addDocument (openedDocuments st) (fileName d)\<rparr>
                       in case fixImages h html (uri_fsPath d) of
                            Inl e \<Rightarrow> Inl (e, st')
                          | Inr fixed \<Rightarrow> Inr (setBackgroundColor h fixed, st'))
                    else Inr (error_page no_mjml_message, st))))"

definition preview_label :: "host \<Rightarrow> document \<Rightarrow> string" where
  "preview_label h active = ''MJML Preview - '' @ path_basename h (fileName active)"

text \<open>The last step of \<^verbatim>\<open>displayWebView\<close>: create the panel or update the one there is.\<close>

definition show_content :: "host \<Rightarrow> document \<Rightarrow> string \<Rightarrow> preview \<Rightarrow> preview" where
  "show_content h active content st =
     (case webview st of
        None \<Rightarrow>
          (let created = st\<lparr>webview := Some (next_pid st),
                            panels := panels st @
                              [\<lparr>pid = next_pid st, title = preview_label h active, panel_html = content\<rparr>],
                            next_pid := Suc (next_pid st)\<rparr>
           in if preserveFocus (getConfiguration h) then
                created\<lparr>effects := effects created @ [ShowTextDocument (fileName active)]\<rparr>
              else created)
      | Some p \<Rightarrow>
          st\<lparr>panels := map (\<lambda>q. if pid q = p then q\<lparr>title := preview_label h active, panel_html := content\<rparr>
                                else q) (panels st)\<rparr>)"

definition displayWebView :: "host \<Rightarrow> preview \<Rightarrow> document \<Rightarrow> preview" where
  "displayWebView h st d =
     (if \<not> isMJMLFile d then st
      else case activeTextEditor h of
             None \<Rightarrow> st
           | Some active \<Rightarrow>
               (case getContent h st d of
                  Inl (e, st') \<Rightarrow> st'
                | Inr (content, st') \<Rightarrow> show_content h active content st'))"

subsection \<open>The event handlers the constructor registers\<close>

definition previewToSide :: "host \<Rightarrow> preview \<Rightarrow> preview" where
  "previewToSide h st =
     (case activeTextEditor h of
        Some active \<Rightarrow> displayWebView h (st\<lparr>previewOpen := True\<rparr>) active
      | None \<Rightarrow> st\<lparr>effects := effects st @ [ShowErrorMessage no_mjml_message]\<rparr>)"

definition onDidOpenTextDocument :: "host \<Rightarrow> preview \<Rightarrow> document option \<Rightarrow> preview" where
  "onDidOpenTextDocument h st arg =
     (case arg of
        None \<Rightarrow> st
      | Some d \<Rightarrow> if previewOpen st \<and> autoPreview (getConfiguration h) then displayWebView h st d else st)"

definition onDidChangeActiveTextEditor :: "host \<Rightarrow> preview \<Rightarrow> document option \<Rightarrow> preview" where
  "onDidChangeActiveTextEditor h st arg =
     (case arg of
        None \<Rightarrow> st
      | Some d \<Rightarrow> if previewOpen st \<and> autoPreview (getConfiguration h) then displayWebView h st d else st)"

definition onDidChangeTextDocument :: "host \<Rightarrow> preview \<Rightarrow> document option \<Rightarrow> preview" where
  "onDidChangeTextDocument h st arg =
     (case arg of
        None \<Rightarrow> st
      | Some d \<Rightarrow>
          if previewOpen st \<and> updateWhenTyping (getConfiguration h) then displayWebView h st d else st)"

definition onDidSaveTextDocument :: "host \<Rightarrow> preview \<Rightarrow> document option \<Rightarrow> preview" where
  "onDidSaveTextDocument h st arg =
     (case arg of
        None \<Rightarrow> st
      | Some d \<Rightarrow> if previewOpen st then displayWebView h st d else st)"

definition onDidCloseTextDocument :: "host \<Rightarrow> preview \<Rightarrow> document option \<Rightarrow> preview" where
  "onDidCloseTextDocument h st arg =
     (case arg of
        None \<Rightarrow> st
      | Some d \<Rightarrow>
          if previewOpen st \<and> webview st \<noteq> None then
            (let st' = st\<lparr>openedDocuments := removeDocument (openedDocuments st) (fileName d)\<rparr>
             in if length (openedDocuments st') = 0 \<and> autoClosePreview (getConfiguration h)
                then dispose st' else st')
          else st)"

text \<open>
  What can happen to the controller: the command, the five editor events (each with the
  argument the editor passes, possibly \<^verbatim>\<open>undefined\<close>), the user closing a panel, a call of
  \<^verbatim>\<open>dispose\<close>, and \<open>Resumed\<close>. The handlers are \<^verbatim>\<open>async\<close>: a handler tests its
  guard when the event arrives, and the body of \<^verbatim>\<open>displayWebView\<close> reads and writes the
  fields of the class only after its \<^verbatim>\<open>await\<close>, when the guard may no longer hold.
  \<open>Resumed d\<close> is that body running for the document \<open>d\<close> with no guard. Each event comes
  with the state of the editor and the libraries at that moment.
\<close>

datatype event =
    PreviewToSide
  | DidOpenTextDocument "document option"
  | DidChangeActiveTextEditor "document option"
  | DidChangeTextDocument "document option"
  | DidSaveTextDocument "document option"
  | DidCloseTextDocument "document option"
  | PanelClosed nat
  | Dispose
  | Resumed document

fun step :: "preview \<Rightarrow> host \<times> event \<Rightarrow> preview" where
  "step st (h, PreviewToSide) = previewToSide h st"
| "step st (h, DidOpenTextDocument arg) = onDidOpenTextDocument h st arg"
| "step st (h, DidChangeActiveTextEditor arg) = onDidChangeActiveTextEditor h st arg"
| "step st (h, DidChangeTextDocument arg) = onDidChangeTextDocument h st arg"
| "step st (h, DidSaveTextDocument arg) = onDidSaveTextDocument h st arg"
| "step st (h, DidCloseTextDocument arg) = onDidCloseTextDocument h st arg"
| "step st (h, PanelClosed p) = dispose_panel p st"
| "step st (h, Dispose) = dispose st"
| "step st (h, Resumed d) = displayWebView h st d"

definition run :: "(host \<times> event) list \<Rightarrow> preview" where
  "run trace = foldl step new_Preview trace"

text \<open>The controller and the window agree: \<^verbatim>\<open>webview\<close> is undefined and no panel is live, or
  it refers to the one live panel.\<close>

definition one_panel :: "preview \<Rightarrow> bool" where
  "one_panel st =
     (case webview st of None \<Rightarrow> panels st = [] | Some p \<Rightarrow> map pid (panels st) = [p])"

section \<open>A sample editor state\<close>

text \<open>One MJML document, \<^verbatim>\<open>/mail/welcome.mjml\<close>, open and active, no \<^verbatim>\<open>preview.json\<close> beside
  it, and a compiler that answers with an image tag holding a relative link. The path
  functions are given at the paths that occur; \<open>path_join\<close> puts a slash between its
  arguments and does not normalise the result. The two helper functions return:
  \<open>mjmlToHtml\<close> the compiler's answer, \<open>fixImages\<close> the text with the links that
  \<^verbatim>\<open>fixLinks\<close> finds put under \<^verbatim>\<open>file:///mail/\<close>.\<close>

definition sample_document :: document where
  "sample_document =
     \<lparr>fileName = ''/mail/welcome.mjml'', languageId = ''mjml'', uri_scheme = ''file'',
      uri_fsPath = ''/mail/welcome.mjml'', getText = ''<mjml></mjml>''\<rparr>"

definition sample_stylesheet :: document where
  "sample_stylesheet =
     \<lparr>fileName = ''/mail/site.css'', languageId = ''css'', uri_scheme = ''file'',
      uri_fsPath = ''/mail/site.css'', getText = ''body {}''\<rparr>"

definition sample_configuration :: configuration where
  "sample_configuration =
     \<lparr>autoPreview = True, updateWhenTyping = True, autoClosePreview = True,
      preserveFocus = False, previewBackgroundColor = [], minifyHtmlOutput = False,
      beautifyHtmlOutput = False\<rparr>"

definition sample_html :: string where
  "sample_html = ''<img src='' @ [dquote] @ ''logo.png'' @ [dquote] @ ''>''"

definition sample_host :: host where
  "sample_host =
     \<lparr>activeTextEditor = Some sample_document,
      textDocuments = [sample_document],
      rootPath = None,
      getConfiguration = sample_configuration,
      existsSync = (\<lambda>p. False),
      readFileSync = (\<lambda>p. Inl (JsError ''Error'' ''ENOENT'')),
      JSON_parse = (\<lambda>s. Inl (JsError ''SyntaxError'' ''Unexpected end of JSON input'')),
      import_module = (\<lambda>p. Inl (JsError ''Error'' ''Cannot find module'')),
      ejs_compile = (\<lambda>t f. Inr (\<lambda>data. Inr t)),
      mjml_lib = (\<lambda>m opts. Inr \<lparr>out_html = Some sample_html\<rparr>),
      mjmlToHtml = (\<lambda>m minify beautify path level. Inr \<lparr>out_html = Some sample_html\<rparr>),
      fixImages =
        (\<lambda>t path. replace_segments (\<lambda>p1 p2 p3. Inr (p1 @ ''file:///mail/'' @ p2 @ p3))
                     (link_segments 0 t)),
      path_dirname = (\<lambda>p. ''/mail''),
      path_basename = (\<lambda>p. drop 6 p),
      path_join = (\<lambda>a b. a @ ''/'' @ b),
      path_resolve = (\<lambda>a b. ''/mail/'' @ drop 3 b),
      path_parse_dir = (\<lambda>p. ''/mail''),
      fileUrl = (\<lambda>p. ''file://'' @ p),
      showInputBox = (\<lambda>p. None),
      writeFile = (\<lambda>f c. None)\<rparr>"




text \<open>A controller whose panel 0 shows the sample document.\<close>

definition sample_preview :: preview where
  "sample_preview =
     \<lparr>openedDocuments = [''/mail/welcome.mjml''], previewOpen = True, webview = Some 0,
      panels = [\<lparr>pid = 0, title = ''MJML Preview - welcome.mjml'', panel_html = sample_html\<rparr>],
      next_pid = 1, effects = []\<rparr>"

section \<open>The tracked documents\<close>

lemma indexOf_ge: "- 1 \<le> indexOf xs v"
  by (induction xs) (auto simp: Let_def)

lemma indexOf_absent: "indexOf xs v = - 1 \<longleftrightarrow> v \<notin> set xs"
proof (induction xs)
  case Nil
  show ?case by simp
next
  case (Cons x xs)
  have "- 1 \<le> indexOf xs v" by (rule indexOf_ge)
  with Cons show ?case by (auto simp: Let_def)
qed

lemma addDocument_eq: "addDocument docs name = (if name \<in> set docs then docs else docs @ [name])"
  by (simp add: addDocument_def indexOf_absent)

lemma distinct_addDocument: "distinct docs \<Longrightarrow> distinct (addDocument docs name)"
  by (simp add: addDocument_eq)

lemma distinct_removeDocument: "distinct docs \<Longrightarrow> distinct (removeDocument docs name)"
  by (simp add: removeDocument_def)

lemma getContent_docs:
  "getContent h st d = Inr (c, st') \<Longrightarrow>
     openedDocuments st' = openedDocuments st \<or>
     openedDocuments st' = addDocument (openedDocuments st) (fileName d)"
  by (auto simp: getContent_def Let_def split: sum.splits option.splits if_splits)

lemma getContent_docs_thrown:
  "getContent h st d = Inl (e, st') \<Longrightarrow>
     openedDocuments st' = openedDocuments st \<or>
     openedDocuments st' = addDocument (openedDocuments st) (fileName d)"
  by (auto simp: getContent_def Let_def split: sum.splits option.splits if_splits)

lemma getContent_rest:
  "getContent h st d = Inr (c, st') \<Longrightarrow>
     previewOpen st' = previewOpen st \<and> webview st' = webview st \<and> panels st' = panels st \<and>
     next_pid st' = next_pid st \<and> effects st' = effects st"
  by (auto simp: getContent_def Let_def split: sum.splits option.splits if_splits)

lemma getContent_rest_thrown:
  "getContent h st d = Inl (e, st') \<Longrightarrow>
     previewOpen st' = previewOpen st \<and> webview st' = webview st \<and> panels st' = panels st \<and>
     next_pid st' = next_pid st \<and> effects st' = effects st"
  by (auto simp: getContent_def Let_def split: sum.splits option.splits if_splits)

lemma show_content_docs: "openedDocuments (show_content h a c st) = openedDocuments st"
  by (simp add: show_content_def Let_def split: option.splits)

lemma distinct_displayWebView:
  "distinct (openedDocuments st) \<Longrightarrow> distinct (openedDocuments (displayWebView h st d))"
  by (auto simp: displayWebView_def show_content_docs distinct_addDocument
      dest!: getContent_docs getContent_docs_thrown split: option.splits sum.splits)

lemma dispose_docs: "openedDocuments (dispose st) = openedDocuments st"
  by (simp add: dispose_def dispose_panel_def split: option.splits)

lemma dispose_panel_docs: "openedDocuments (dispose_panel p st) = openedDocuments st"
  by (simp add: dispose_panel_def)

lemma distinct_step: "distinct (openedDocuments st) \<Longrightarrow> distinct (openedDocuments (step st he))"
proof (cases he)
  case (Pair h e)
  assume d: "distinct (openedDocuments st)"
  show ?thesis
  proof (cases e)
    case PreviewToSide
    have "distinct (openedDocuments (st\<lparr>previewOpen := True\<rparr>))" using d by simp
    then show ?thesis using Pair PreviewToSide d
      by (auto simp: previewToSide_def split: option.splits intro: distinct_displayWebView)
  next
    case (DidCloseTextDocument arg)
    then show ?thesis using Pair d
      by (auto simp: onDidCloseTextDocument_def Let_def dispose_docs distinct_removeDocument split: option.splits)
  qed (use Pair d in \<open>auto simp: onDidOpenTextDocument_def onDidChangeActiveTextEditor_def
        onDidChangeTextDocument_def onDidSaveTextDocument_def dispose_docs dispose_panel_docs
        split: option.splits intro: distinct_displayWebView\<close>)
qed

lemma distinct_foldl_step:
  "distinct (openedDocuments st) \<Longrightarrow> distinct (openedDocuments (foldl step st trace))"
  by (induction trace arbitrary: st) (simp_all add: distinct_step)

text \<open>
  C8. The tracked collection \<^verbatim>\<open>openedDocuments\<close> behaves as a set. Whatever events the
  controller has handled, no file name is in it twice. \<^verbatim>\<open>addDocument\<close> leaves the list as
  it is when the name is already there and appends it otherwise; \<^verbatim>\<open>removeDocument\<close>
  leaves no occurrence of the name and keeps the other entries as they were; both keep a
  duplicate-free list duplicate-free.
\<close>

theorem tracked_documents_form_a_set:
  "distinct (openedDocuments (run trace)) \<and>
   addDocument docs name = (if name \<in> set docs then docs else docs @ [name]) \<and>
   name \<notin> set (removeDocument docs name) \<and>
   filter (\<lambda>file. file \<noteq> name) (removeDocument docs name) = filter (\<lambda>file. file \<noteq> name) docs \<and>
   (distinct docs \<longrightarrow> distinct (addDocument docs name) \<and> distinct (removeDocument docs name))"
proof -
  have "distinct (openedDocuments new_Preview)" by (simp add: new_Preview_def)
  then have "distinct (openedDocuments (run trace))"
    unfolding run_def by (rule distinct_foldl_step)
  then show ?thesis
    by (simp add: distinct_addDocument distinct_removeDocument addDocument_eq removeDocument_def)
qed

theorem tracked_documents_form_a_set_witness:
  "distinct [''a.mjml'', ''b.mjml''] \<and>
   distinct (addDocument [''a.mjml'', ''b.mjml''] ''a.mjml'') \<and>
   distinct (removeDocument [''a.mjml'', ''b.mjml''] ''a.mjml'') \<and>
   addDocument [''a.mjml'', ''b.mjml''] ''a.mjml'' = [''a.mjml'', ''b.mjml''] \<and>
   removeDocument [''a.mjml'', ''b.mjml''] ''a.mjml'' = [''b.mjml''] \<and>
   distinct (openedDocuments (run [(sample_host, PreviewToSide)]))"
  using tracked_documents_form_a_set
          [of "[(sample_host, PreviewToSide)]" "[''a.mjml'', ''b.mjml'']" "''a.mjml''"]
  by (simp add: removeDocument_def)

section \<open>Previewable documents\<close>

text \<open>
  C5. A document is previewable exactly when its language identifier is \<^verbatim>\<open>mjml\<close> and the
  scheme of its URI is not \<^verbatim>\<open>mjml-preview\<close>, and \<^verbatim>\<open>displayWebView\<close> leaves the controller
  and the window as they are for a document that is not previewable.
\<close>

theorem previewable_document:
  "(isMJMLFile d \<longleftrightarrow> languageId d = ''mjml'' \<and> uri_scheme d \<noteq> ''mjml-preview'') \<and>
   (\<not> isMJMLFile d \<longrightarrow> displayWebView h st d = st)"
  by (simp add: isMJMLFile_def displayWebView_def)

theorem previewable_document_witness:
  "\<not> isMJMLFile sample_stylesheet \<and> isMJMLFile sample_document \<and>
   displayWebView sample_host sample_preview sample_stylesheet = sample_preview"
  using previewable_document [of sample_stylesheet sample_host sample_preview]
    previewable_document [of sample_document sample_host sample_preview]
  by (simp add: sample_stylesheet_def sample_document_def)

section \<open>The close event\<close>

text \<open>
  C6. A document is closed while the preview is open: the flag \<^verbatim>\<open>previewOpen\<close> is set and
  \<^verbatim>\<open>webview\<close> refers to a live panel. Then the file name of the closed document is
  removed from the tracked documents; when none is left and \<^verbatim>\<open>autoClosePreview\<close> is set,
  the panel is disposed, and otherwise the event leaves the panel alone.
\<close>

theorem close_event:
  assumes "previewOpen st" and "webview st = Some p" and "p \<in> set (map pid (panels st))"
  shows "openedDocuments (onDidCloseTextDocument h st (Some d)) =
           filter (\<lambda>file. file \<noteq> fileName d) (openedDocuments st) \<and>
         fileName d \<notin> set (openedDocuments (onDidCloseTextDocument h st (Some d))) \<and>
         (if openedDocuments (onDidCloseTextDocument h st (Some d)) = [] \<and>
             autoClosePreview (getConfiguration h)
          then webview (onDidCloseTextDocument h st (Some d)) = None \<and>
               p \<notin> set (map pid (panels (onDidCloseTextDocument h st (Some d)))) \<and>
               \<not> previewOpen (onDidCloseTextDocument h st (Some d))
          else webview (onDidCloseTextDocument h st (Some d)) = Some p \<and>
               panels (onDidCloseTextDocument h st (Some d)) = panels st \<and>
               previewOpen (onDidCloseTextDocument h st (Some d)))"
  using assms
  by (auto simp: onDidCloseTextDocument_def Let_def dispose_def dispose_panel_def removeDocument_def)

theorem close_event_witness:
  "previewOpen sample_preview \<and> webview sample_preview = Some 0 \<and>
   0 \<in> set (map pid (panels sample_preview)) \<and>
   autoClosePreview (getConfiguration sample_host) \<and>
   openedDocuments (onDidCloseTextDocument sample_host sample_preview (Some sample_document)) = [] \<and>
   webview (onDidCloseTextDocument sample_host sample_preview (Some sample_document)) = None \<and>
   panels (onDidCloseTextDocument sample_host sample_preview (Some sample_document)) = [] \<and>
   webview (onDidCloseTextDocument sample_host sample_preview (Some sample_stylesheet)) = Some 0"
proof -
  have a: "previewOpen sample_preview" "webview sample_preview = Some 0"
    "0 \<in> set (map pid (panels sample_preview))"
    by (simp_all add: sample_preview_def)
  have c: "autoClosePreview (getConfiguration sample_host)"
    by (simp add: sample_host_def sample_configuration_def)
  note w1 = close_event [OF a, of sample_host sample_document]
  note w2 = close_event [OF a, of sample_host sample_stylesheet]
  have d1: "openedDocuments (onDidCloseTextDocument sample_host sample_preview (Some sample_document)) = []"
    using w1 by (simp add: sample_preview_def sample_document_def)
  have d2: "openedDocuments (onDidCloseTextDocument sample_host sample_preview (Some sample_stylesheet)) \<noteq> []"
    using w2 by (simp add: sample_preview_def sample_stylesheet_def)
  have p1: "panels (onDidCloseTextDocument sample_host sample_preview (Some sample_document)) = []"
    using a c by (simp add: onDidCloseTextDocument_def Let_def dispose_def dispose_panel_def
        removeDocument_def sample_preview_def sample_document_def)
  show ?thesis using a c d1 d2 w1 w2 p1 by simp
qed

section \<open>IDMap\<close>

lemma getByUri_append:
  "getByUri (m @ m') u = (case getByUri m u of None \<Rightarrow> getByUri m' u | Some v \<Rightarrow> Some v)"
  by (induction m) auto

lemma getByUri_add:
  "getByUri (snd (add m rnd d p)) u =
     (case getByUri m u of
        Some v \<Rightarrow> Some v
      | None \<Rightarrow> if u = d then Some (fst (add m rnd d p)) else None)"
  by (simp add: add_def Let_def getByUri_append split: option.splits)

lemma getByUri_add_all:
  "u \<notin> set (map (\<lambda>(rnd, d, p). d) calls) \<Longrightarrow> getByUri (add_all m calls) u = getByUri m u"
proof (induction calls arbitrary: m)
  case Nil
  show ?case by simp
next
  case (Cons c calls)
  obtain rnd d p where c: "c = (rnd, d, p)" by (cases c)
  from Cons.prems c have "u \<noteq> d" and rest: "u \<notin> set (map (\<lambda>(rnd, d, p). d) calls)" by auto
  have "getByUri (add_all m (c # calls)) u = getByUri (snd (add m rnd d p)) u"
    using Cons.IH [OF rest] c by simp
  also have "\<dots> = getByUri m u"
    using \<open>u \<noteq> d\<close> by (simp add: getByUri_add split: option.splits)
  finally show ?case .
qed

text \<open>
  C10. When the document URI \<open>d\<close> is not registered in the map, \<^verbatim>\<open>add(d, p)\<close> returns an id
  that \<^verbatim>\<open>getByUri(d)\<close> then returns, and \<^verbatim>\<open>hasUri(d)\<close> holds; for a string that no call of
  \<^verbatim>\<open>add\<close> was given, \<^verbatim>\<open>getByUri\<close> returns \<^verbatim>\<open>undefined\<close> and \<^verbatim>\<open>hasUri\<close> is false.
\<close>

theorem idmap_round_trip:
  "(getByUri m d = None \<longrightarrow>
      getByUri (snd (add m rnd d p)) d = Some (fst (add m rnd d p)) \<and>
      hasUri (snd (add m rnd d p)) d) \<and>
   (u \<notin> set (map (\<lambda>(rnd, d, p). d) calls) \<longrightarrow>
      getByUri (add_all [] calls) u = None \<and> \<not> hasUri (add_all [] calls) u)"
  by (simp add: getByUri_add getByUri_add_all hasUri_def)

theorem idmap_round_trip_witness:
  "getByUri (add_all [] [(\<lambda>k. k, ''doc-a'', ''preview-a'')]) ''doc-b'' = None \<and>
   ''doc-c'' \<notin> set (map (\<lambda>(rnd, d, p). d) [(\<lambda>k. k, ''doc-a'', ''preview-a'')]) \<and>
   getByUri (snd (add (add_all [] [(\<lambda>k. k, ''doc-a'', ''preview-a'')]) (\<lambda>k. 7) ''doc-b'' ''preview-b'')) ''doc-b''
     = Some ''77777777-7777-4777-b777-777777777777'' \<and>
   hasUri (snd (add (add_all [] [(\<lambda>k. k, ''doc-a'', ''preview-a'')]) (\<lambda>k. 7) ''doc-b'' ''preview-b'')) ''doc-b'' \<and>
   \<not> hasUri (add_all [] [(\<lambda>k. k, ''doc-a'', ''preview-a'')]) ''doc-c''"
proof -
  let ?m = "add_all [] [(\<lambda>k. k, ''doc-a'', ''preview-a'')]"
  have m: "?m = [([KeyString ''doc-a'', KeyUri ''preview-a''], UUIDv4 (\<lambda>k. k))]"
    by (simp add: add_def Let_def)
  have h1: "getByUri ?m ''doc-b'' = None" unfolding m by simp
  have h2: "''doc-c'' \<notin> set (map (\<lambda>(rnd, d, p). d) [(\<lambda>k::nat. k, ''doc-a'', ''preview-a'')])" by simp
  have i: "fst (add ?m (\<lambda>k. 7) ''doc-b'' ''preview-b'') = ''77777777-7777-4777-b777-777777777777''"
    by (simp add: add_def Let_def UUIDv4_def hex_digit_def)
  show ?thesis
    using idmap_round_trip [of ?m "''doc-b''" "\<lambda>k. 7" "''preview-b''" "''doc-c''" "[(\<lambda>k. k, ''doc-a'', ''preview-a'')]"]
      h1 h2 i by simp
qed

section \<open>Helper.mjml2html\<close>

text \<open>
  C9. \<^verbatim>\<open>Helper.mjml2html\<close> never throws. It returns \<^verbatim>\<open>undefined\<close> when the call of the
  compiler throws (or the options cannot be built because no editor is active) and when
  the result has no \<^verbatim>\<open>html\<close> member or an empty one; otherwise it returns that \<^verbatim>\<open>html\<close>
  string.
\<close>

theorem mjml2html_never_throws:
  "(\<exists>r. mjml2html h mjml minify beautify = Inr r) \<and>
   mjml2html h mjml minify beautify =
     (case activeTextEditor h of
        None \<Rightarrow> Inr None
      | Some d \<Rightarrow>
          (case mjml_lib h mjml
                  \<lparr>opt_level = ''skip'', opt_minify = minify, opt_beautify = beautify,
                   opt_filePath = uri_fsPath d,
                   opt_cwd = (case rootPath h of
                                None \<Rightarrow> path_parse_dir h (uri_fsPath d)
                              | Some root \<Rightarrow> if root \<noteq> [] then root else path_parse_dir h (uri_fsPath d))\<rparr> of
             Inl e \<Rightarrow> Inr None
           | Inr res \<Rightarrow>
               (case out_html res of
                  None \<Rightarrow> Inr None
                | Some s \<Rightarrow> if s = [] then Inr None else Inr (Some s))))"
  by (auto simp: mjml2html_def mjml2html_try_def try_catch_def activeDocument_def getCWD_def truthy_def
      Let_def split: option.splits sum.splits)

section \<open>Helper.compileHtml\<close>

text \<open>
  C7. The templating pass is the identity when there is no data source: with an active
  document, when no open document is named as the sibling \<^verbatim>\<open>preview.json\<close> and no such
  file exists on disk, \<^verbatim>\<open>compileHtml\<close> returns its input unchanged.
\<close>

theorem compileHtml_identity_without_data:
  assumes "activeTextEditor h = Some d"
    and "\<forall>e\<in>set (textDocuments h). fileName e \<noteq> dataFileName_of (fileName d)"
    and "\<not> existsSync h (dataFileName_of (fileName d))"
  shows "compileHtml h t = Inr t"
proof -
  have "find (\<lambda>e. fileName e = dataFileName_of (fileName d)) (textDocuments h) = None"
    using assms(2) by (auto simp: find_None_iff)
  then have "resolveFileOrText h (dataFileName_of (fileName d)) = Inr None"
    using assms(3) by (simp add: resolveFileOrText_def)
  then show ?thesis
    using assms(1) by (simp add: compileHtml_def activeDocument_def)
qed

theorem compileHtml_identity_without_data_witness:
  "activeTextEditor sample_host = Some sample_document \<and>
   dataFileName_of (fileName sample_document) = ''/mail/preview.json'' \<and>
   ''/mail/preview.json'' \<notin> set (map fileName (textDocuments sample_host)) \<and>
   \<not> existsSync sample_host ''/mail/preview.json'' \<and>
   compileHtml sample_host ''<mjml><%= title %></mjml>'' = Inr ''<mjml><%= title %></mjml>''"
proof -
  have n: "dataFileName_of (fileName sample_document) = ''/mail/preview.json''"
    by (simp add: dataFileName_of_def fileFolder_of_def substring0_def lastIndexOf_def sample_document_def)
  have a: "activeTextEditor sample_host = Some sample_document" by (simp add: sample_host_def)
  have b: "\<forall>e\<in>set (textDocuments sample_host). fileName e \<noteq> dataFileName_of (fileName sample_document)"
    unfolding n by (simp add: sample_host_def sample_document_def)
  have c: "\<not> existsSync sample_host (dataFileName_of (fileName sample_document))"
    by (simp add: sample_host_def)
  show ?thesis
    using compileHtml_identity_without_data [OF a b c, of "''<mjml><%= title %></mjml>''"] a b c n
    by (simp add: sample_host_def sample_document_def)
qed

section \<open>The content pipeline\<close>







section \<open>The export command\<close>

text \<open>
  C3, as stated, fails. For the sample document the compiler's HTML holds the relative
  link \<^verbatim>\<open>logo.png\<close>: the export writes it as it is, the preview shows it rewritten to a
  file URL.
\<close>

theorem export_differs_from_preview:
  "ExportHTML_export sample_host =
     Returned (Saved ''/mail/welcome.html'' (''<img src='' @ [dquote] @ ''logo.png'' @ [dquote] @ ''>'')
                 ''File saved as welcome.html'') \<and>
   provideTextDocumentContent sample_host sample_document =
     Inr (''<img src='' @ [dquote] @ ''file:///mail/logo.png'' @ [dquote] @ ''>'') \<and>
   ''<img src='' @ [dquote] @ ''logo.png'' @ [dquote] @ ''>'' \<noteq>
     ''<img src='' @ [dquote] @ ''file:///mail/logo.png'' @ [dquote] @ ''>''"
  by code_simp

lemma renderMJML_Returned:
  "renderMJML h cb None None None = Returned v \<Longrightarrow>
     \<exists>d templated content.
       activeTextEditor h = Some d \<and> isMJMLFile d \<and>
       compileHtml h (getText d) = Inr templated \<and>
       mjml2html h templated (minifyHtmlOutput (getConfiguration h))
         (beautifyHtmlOutput (getConfiguration h)) = Inr (Some content) \<and>
       content \<noteq> [] \<and> cb content = Inr v"
  by (auto simp: renderMJML_def activeDocument_def split: option.splits sum.splits if_splits)

lemma export_callback_Saved:
  "export_callback h c = Inr (Saved file content msg) \<Longrightarrow> content = c"
  by (auto simp: export_callback_def activeDocument_def Let_def split: option.splits sum.splits)

text \<open>
  C3, amended. When the export writes a file, its content is the HTML the compiler
  returns for the templated text of the active MJML document under the configured
  minify and beautify flags, with no link rewritten; when both flags are off, the
  preview of that document is \<^verbatim>\<open>fixLinks\<close> applied to the exported content.
\<close>

theorem export_writes_compiler_html:
  assumes "ExportHTML_export h = Returned (Saved file content msg)"
  shows "\<exists>d templated.
           activeTextEditor h = Some d \<and> isMJMLFile d \<and>
           compileHtml h (getText d) = Inr templated \<and>
           mjml2html h templated (minifyHtmlOutput (getConfiguration h))
             (beautifyHtmlOutput (getConfiguration h)) = Inr (Some content) \<and>
           (\<not> minifyHtmlOutput (getConfiguration h) \<and> \<not> beautifyHtmlOutput (getConfiguration h) \<longrightarrow>
              provideTextDocumentContent h d = fixLinks h content)"
proof -
  from assms obtain d templated c where d: "activeTextEditor h = Some d" "isMJMLFile d"
    and t: "compileHtml h (getText d) = Inr templated"
    and m: "mjml2html h templated (minifyHtmlOutput (getConfiguration h))
              (beautifyHtmlOutput (getConfiguration h)) = Inr (Some c)"
    and c: "c \<noteq> []" "export_callback h c = Inr (Saved file content msg)"
    unfolding ExportHTML_export_def by (blast dest: renderMJML_Returned)
  have eq: "content = c" using c(2) by (rule export_callback_Saved)
  have "provideTextDocumentContent h d = fixLinks h content"
    if "\<not> minifyHtmlOutput (getConfiguration h)" "\<not> beautifyHtmlOutput (getConfiguration h)"
    using that d t m c(1) eq
    by (simp add: provideTextDocumentContent_def provider_renderMJML_def isMJMLFile_def)
  with d t m eq show ?thesis by blast
qed

theorem export_writes_compiler_html_witness:
  "ExportHTML_export sample_host = Returned (Saved ''/mail/welcome.html'' sample_html ''File saved as welcome.html'') \<and>
   (\<exists>d templated.
      activeTextEditor sample_host = Some d \<and> isMJMLFile d \<and>
      compileHtml sample_host (getText d) = Inr templated \<and>
      mjml2html sample_host templated False False = Inr (Some sample_html) \<and>
      provideTextDocumentContent sample_host d = fixLinks sample_host sample_html)"
proof -
  have e: "ExportHTML_export sample_host =
             Returned (Saved ''/mail/welcome.html'' sample_html ''File saved as welcome.html'')"
    by code_simp
  have f: "minifyHtmlOutput (getConfiguration sample_host) = False"
    "beautifyHtmlOutput (getConfiguration sample_host) = False"
    by (simp_all add: sample_host_def sample_configuration_def)
  show ?thesis using export_writes_compiler_html [OF e] e unfolding f by simp
qed

section \<open>The preview panel\<close>

lemma one_panel_show_content: "one_panel st \<Longrightarrow> one_panel (show_content h a c st)"
  by (auto simp: one_panel_def show_content_def Let_def o_def split: option.splits)

lemma one_panel_getContent: "getContent h st d = Inr (c, st') \<Longrightarrow> one_panel st \<Longrightarrow> one_panel st'"
  by (auto simp: one_panel_def dest!: getContent_rest split: option.splits)

lemma one_panel_getContent_thrown:
  "getContent h st d = Inl (e, st') \<Longrightarrow> one_panel st \<Longrightarrow> one_panel st'"
  by (auto simp: one_panel_def dest!: getContent_rest_thrown split: option.splits)

lemma one_panel_displayWebView: "one_panel st \<Longrightarrow> one_panel (displayWebView h st d)"
  by (auto simp: displayWebView_def split: option.splits sum.splits
      intro: one_panel_show_content one_panel_getContent one_panel_getContent_thrown)

lemma one_panel_dispose_panel: "one_panel st \<Longrightarrow> one_panel (dispose_panel p st)"
  by (auto simp: one_panel_def dispose_panel_def split: option.splits)

lemma one_panel_dispose: "one_panel st \<Longrightarrow> one_panel (dispose st)"
  by (simp add: dispose_def one_panel_dispose_panel split: option.splits)

lemma one_panel_docs: "one_panel (st\<lparr>openedDocuments := ds\<rparr>) = one_panel st"
  by (simp add: one_panel_def split: option.splits)

lemma one_panel_open: "one_panel (st\<lparr>previewOpen := b\<rparr>) = one_panel st"
  by (simp add: one_panel_def split: option.splits)

lemma one_panel_effects: "one_panel (st\<lparr>effects := es\<rparr>) = one_panel st"
  by (simp add: one_panel_def split: option.splits)

lemma one_panel_step: "one_panel st \<Longrightarrow> one_panel (step st he)"
proof (cases he)
  case (Pair h e)
  assume i: "one_panel st"
  show ?thesis
  proof (cases e)
    case PreviewToSide
    have "one_panel (st\<lparr>previewOpen := True\<rparr>)" using i by (simp add: one_panel_open)
    then show ?thesis using Pair PreviewToSide i
      by (auto simp: previewToSide_def one_panel_effects split: option.splits
          intro: one_panel_displayWebView)
  next
    case (DidCloseTextDocument arg)
    then show ?thesis using Pair i
      by (auto simp: onDidCloseTextDocument_def Let_def one_panel_docs split: option.splits
          intro!: one_panel_dispose)
  qed (use Pair i in \<open>auto simp: onDidOpenTextDocument_def onDidChangeActiveTextEditor_def
        onDidChangeTextDocument_def onDidSaveTextDocument_def
        split: option.splits
        intro: one_panel_displayWebView one_panel_dispose one_panel_dispose_panel\<close>)
qed

lemma one_panel_foldl_step: "one_panel st \<Longrightarrow> one_panel (foldl step st trace)"
  by (induction trace arbitrary: st) (simp_all add: one_panel_step)

lemma one_panel_run: "one_panel (run trace)"
  unfolding run_def by (rule one_panel_foldl_step) (simp add: one_panel_def new_Preview_def)

lemma displayWebView_keeps_panels:
  "webview st \<noteq> None \<Longrightarrow> map pid (panels (displayWebView h st d)) = map pid (panels st)"
  by (auto simp: displayWebView_def show_content_def o_def
      dest!: getContent_rest getContent_rest_thrown split: option.splits sum.splits intro!: map_cong)

text \<open>
  C1. The controller owns at most one live panel: after any sequence of events at most
  one panel exists, and none exactly when \<^verbatim>\<open>webview\<close> is undefined. A call of
  \<^verbatim>\<open>displayWebView\<close> creates no panel when \<^verbatim>\<open>webview\<close> is defined; when it gets as far as
  showing content, it creates a panel with the label and the content if \<^verbatim>\<open>webview\<close> is
  undefined, and otherwise sets the title and the HTML of the panel \<^verbatim>\<open>webview\<close> refers to.
\<close>

theorem at_most_one_panel:
  "length (panels (run trace)) \<le> 1 \<and>
   (webview (run trace) = None \<longleftrightarrow> panels (run trace) = []) \<and>
   (webview st \<noteq> None \<longrightarrow> map pid (panels (displayWebView h st d)) = map pid (panels st)) \<and>
   (isMJMLFile d \<and> activeTextEditor h = Some active \<and> getContent h st d = Inr (content, st') \<longrightarrow>
      (case webview st of
         None \<Rightarrow>
           panels (displayWebView h st d) =
             panels st @ [\<lparr>pid = next_pid st, title = preview_label h active, panel_html = content\<rparr>] \<and>
           webview (displayWebView h st d) = Some (next_pid st)
       | Some p \<Rightarrow>
           panels (displayWebView h st d) =
             map (\<lambda>q. if pid q = p then q\<lparr>title := preview_label h active, panel_html := content\<rparr>
                       else q) (panels st) \<and>
           webview (displayWebView h st d) = Some p))"
proof -
  have i: "one_panel (run trace)" by (rule one_panel_run)
  have a: "length (panels (run trace)) \<le> 1"
    using i by (cases "webview (run trace)") (simp_all add: one_panel_def flip: length_map [of pid])
  have b: "webview (run trace) = None \<longleftrightarrow> panels (run trace) = []"
    using i by (cases "webview (run trace)") (auto simp: one_panel_def)
  have c: "webview st \<noteq> None \<longrightarrow> map pid (panels (displayWebView h st d)) = map pid (panels st)"
    by (simp add: displayWebView_keeps_panels)
  have e: "isMJMLFile d \<and> activeTextEditor h = Some active \<and> getContent h st d = Inr (content, st') \<longrightarrow>
      (case webview st of
         None \<Rightarrow>
           panels (displayWebView h st d) =
             panels st @ [\<lparr>pid = next_pid st, title = preview_label h active, panel_html = content\<rparr>] \<and>
           webview (displayWebView h st d) = Some (next_pid st)
       | Some p \<Rightarrow>
           panels (displayWebView h st d) =
             map (\<lambda>q. if pid q = p then q\<lparr>title := preview_label h active, panel_html := content\<rparr>
                       else q) (panels st) \<and>
           webview (displayWebView h st d) = Some p)"
    by (auto simp: displayWebView_def show_content_def Let_def dest!: getContent_rest split: option.splits)
  from a b c e show ?thesis by blast
qed

theorem at_most_one_panel_witness:
  "webview sample_preview \<noteq> None \<and> isMJMLFile sample_document \<and>
   activeTextEditor sample_host = Some sample_document \<and>
   getContent sample_host sample_preview sample_document =
     Inr (''<img src='' @ [dquote] @ ''file:///mail/logo.png'' @ [dquote] @ ''>'', sample_preview) \<and>
   panels (displayWebView sample_host sample_preview sample_document) =
     [\<lparr>pid = 0, title = ''MJML Preview - welcome.mjml'',
       panel_html = ''<img src='' @ [dquote] @ ''file:///mail/logo.png'' @ [dquote] @ ''>''\<rparr>] \<and>
   webview (displayWebView sample_host sample_preview sample_document) = Some 0 \<and>
   length (panels (run [(sample_host, PreviewToSide),
                        (sample_host, DidSaveTextDocument (Some sample_document))])) \<le> 1"
proof -
  let ?c = "''<img src='' @ [dquote] @ ''file:///mail/logo.png'' @ [dquote] @ ''>''"
  have w: "webview sample_preview = Some 0" by (simp add: sample_preview_def)
  have m: "isMJMLFile sample_document" by code_simp
  have a: "activeTextEditor sample_host = Some sample_document" by (simp add: sample_host_def)
  have g: "getContent sample_host sample_preview sample_document = Inr (?c, sample_preview)"
    by code_simp
  have l: "preview_label sample_host sample_document = ''MJML Preview - welcome.mjml''"
    by code_simp
  have p: "panels sample_preview =
             [\<lparr>pid = 0, title = ''MJML Preview - welcome.mjml'', panel_html = sample_html\<rparr>]"
    by (simp add: sample_preview_def)
  show ?thesis
    using at_most_one_panel [where trace = "[(sample_host, PreviewToSide),
                        (sample_host, DidSaveTextDocument (Some sample_document))]"
        and st = sample_preview and h = sample_host and d = sample_document
        and active = sample_document and content = ?c and st' = sample_preview]
      w m a g
    by (simp add: l p)
qed

section \<open>Helper.fixLinks\<close>

text \<open>A relative link in double quotes is rewritten, and an \<^verbatim>\<open>http\<close> link in double quotes
  is left alone.\<close>

lemma fixLinks_double_quoted_relative:
  "fixLinks sample_host (''<a href='' @ [dquote] @ ''terms.html'' @ [dquote] @ ''>'') =
     Inr (''<a href='' @ [dquote] @ ''file:///mail/terms.html'' @ [dquote] @ ''>'')"
  by code_simp

lemma fixLinks_double_quoted_http:
  "fixLinks sample_host (''<a href='' @ [dquote] @ ''http://example.com/'' @ [dquote] @ ''>'') =
     Inr (''<a href='' @ [dquote] @ ''http://example.com/'' @ [dquote] @ ''>'')"
  by code_simp

text \<open>
  C4. \<^verbatim>\<open>fixLinks\<close> is to rewrite relative \<^verbatim>\<open>src=\<close>, \<^verbatim>\<open>href=\<close> and \<^verbatim>\<open>url(\<close> references into
  file URLs under the directory of the active document and to leave references that
  begin with \<^verbatim>\<open>http\<close> as they are. For a reference in single quotes the code does not:
  after the lookahead has refused \<^verbatim>\<open>http\<close> behind the quote, the optional quote of
  group 1 matches empty, the lookahead sees the quote, and the quote with the URL
  becomes the path that is joined to the directory.
\<close>

theorem fixLinks_single_quoted_http:
  "fixLinks sample_host (''<a href='' @ [squote] @ ''http://example.com/'' @ [squote] @ ''>'') =
     Inr (''<a href=file:///mail/'' @ [squote] @ ''http://example.com/'' @ [squote] @ ''>'')"
  by code_simp

end
